theory Spec2Isabelle
  imports Main
begin

section \<open>Strings\<close>

text \<open>
  Python strings are modelled as \<^typ>\<open>string\<close> (lists of bytes; the two emoji the
  scripts print are written as their UTF-8 bytes). The helpers below are the \<open>str\<close>
  methods the scripts call.
\<close>

text \<open>\<^verbatim>\<open>sep.join(xs)\<close>\<close>

fun join :: "string \<Rightarrow> string list \<Rightarrow> string" where
  "join sep [] = []"
| "join sep [x] = x"
| "join sep (x # y # ys) = x @ sep @ join sep (y # ys)"

text \<open>\<^verbatim>\<open>s.split(c)\<close> for a one-character separator.\<close>

fun split_on :: "char \<Rightarrow> string \<Rightarrow> string list" where
  "split_on c [] = [[]]"
| "split_on c (x # xs) =
     (if x = c then [] # split_on c xs
      else (case split_on c xs of
              [] \<Rightarrow> [[x]]
            | y # ys \<Rightarrow> (x # y) # ys))"

text \<open>\<^verbatim>\<open>s.startswith(p)\<close>\<close>

definition startswith :: "string \<Rightarrow> string \<Rightarrow> bool" where
  "startswith s p = (take (length p) s = p)"

text \<open>\<^verbatim>\<open>str(n)\<close> for a non-negative integer.\<close>

definition digit_char :: "nat \<Rightarrow> char" where
  "digit_char d = char_of (48 + d)"

function str_of_nat :: "nat \<Rightarrow> string" where
  "str_of_nat n =
     (if n < 10 then [digit_char n]
      else str_of_nat (n div 10) @ [digit_char (n mod 10)])"
  by pat_completeness auto
termination
  by (relation "measure id") auto

text \<open>The marks the scripts print: U+2705 and U+274C in UTF-8.\<close>

definition check_mark :: string where
  "check_mark = [CHR 0xE2, CHR 0x9C, CHR 0x85]"

definition cross_mark :: string where
  "cross_mark = [CHR 0xE2, CHR 0x9D, CHR 0x8C]"


section \<open>Paths and the environment\<close>

text \<open>
  A \<^verbatim>\<open>pathlib.Path\<close> on POSIX: whether it starts at the root, and its components.
  \<open>Path\<close> is the constructor from a string: repeated slashes, a trailing slash and
  \<open>.\<close> components disappear (\<open>..\<close> stays). The two-slash root of POSIX and symbolic
  links are outside the model.
\<close>

datatype path = PosixPath (anchored: bool) (parts: "string list")

definition Path :: "string \<Rightarrow> path" where
  "Path s = PosixPath (startswith s ''/'')
              (filter (\<lambda>c. c \<noteq> [] \<and> c \<noteq> ''.'') (split_on (CHR ''/'') s))"

text \<open>\<^verbatim>\<open>str(path)\<close>\<close>

definition str_path :: "path \<Rightarrow> string" where
  "str_path p =
     (if anchored p then ''/'' @ join ''/'' (parts p)
      else if parts p = [] then ''.''
      else join ''/'' (parts p))"

text \<open>The values a YAML or JSON document parses to (floating-point scalars left out).\<close>

datatype json =
    JNull
  | JBool bool
  | JNum int
  | JStr string
  | JArr "json list"
  | JObj "(string \<times> json) list"

text \<open>
  What \<^verbatim>\<open>jsonschema\<close> yields for one violation: \<^verbatim>\<open>error.absolute_path\<close> (property
  names and array indices from the document root) and \<^verbatim>\<open>error.message\<close>.
\<close>

datatype path_elem = Key string | Index nat

datatype validation_error =
  ValidationError (absolute_path: "path_elem list") (message: string)

datatype fnode = File string | Dir

text \<open>\<^verbatim>\<open>urllib\<close>: the body, or \<^verbatim>\<open>URLError\<close> (which \<^verbatim>\<open>HTTPError\<close> is a subclass of).\<close>

datatype fetch_result = Fetched string | URLError string

text \<open>
  Everything the scripts read from or write to outside themselves. The file system is
  keyed by absolute path; \<open>denied\<close> says where the operating system refuses to create
  or write; \<open>stdout\<close> collects the printed lines and \<open>requests\<close> the URLs fetched.
  The libraries (PyYAML, json, jsonschema's Draft 2019-09 validator) and the sources
  of fresh values (temporary file name, UUID, clock) are fields too: a parser returns
  \<open>Inl\<close> of the message of its parse exception (\<^verbatim>\<open>YAMLError\<close>, \<^verbatim>\<open>JSONDecodeError\<close>).

  The exceptions modelled are the ones the scripts name in an \<^verbatim>\<open>except\<close> clause and
  the ones the file system of the model gives rise to (reading a directory, writing
  below a file). Exceptions of other classes that a library may raise (a socket
  error in the middle of a transfer, a text decoding error, the validator rejecting
  a malformed schema, no room for a temporary file) are outside the model.
\<close>

record world =
  cwd :: "string list"
  fs :: "path \<Rightarrow> fnode option"
  denied :: "path \<Rightarrow> bool"
  stdout :: "string list"
  requests :: "string list"
  http_get :: "string \<Rightarrow> fetch_result"
  tmp_name :: path
  yaml_safe_load :: "string \<Rightarrow> string + json"
  json_loads :: "string \<Rightarrow> string + json"
  iter_errors :: "json \<Rightarrow> json \<Rightarrow> validation_error list"
  uuid4 :: string
  now_isoformat :: string
  now_date :: string

definition print_line :: "world \<Rightarrow> string \<Rightarrow> world" where
  "print_line w s = w\<lparr>stdout := stdout w @ [s]\<rparr>"

text \<open>\<^verbatim>\<open>path.resolve()\<close>: a relative path is taken from the working directory.\<close>

definition resolve :: "world \<Rightarrow> path \<Rightarrow> path" where
  "resolve w p = (if anchored p then p else PosixPath True (cwd w @ parts p))"

definition is_absolute :: "path \<Rightarrow> bool" where
  "is_absolute p = anchored p"

definition node :: "world \<Rightarrow> path \<Rightarrow> fnode option" where
  "node w p = (let q = resolve w p in if parts q = [] then Some Dir else fs w q)"

text \<open>\<^verbatim>\<open>path.exists()\<close>\<close>

definition path_exists :: "world \<Rightarrow> path \<Rightarrow> bool" where
  "path_exists w p = (node w p \<noteq> None)"

text \<open>
  One step of a script: it goes on with a value, returns early with a message
  (\<^verbatim>\<open>return False, [msg]\<close>), or raises an exception that nothing catches.
\<close>

datatype 'a step = Done 'a | Fail string | Crash string

datatype uncaught = Uncaught string

text \<open>\<^verbatim>\<open>open(path, 'r')\<close> followed by reading the whole file.\<close>

definition read_text :: "world \<Rightarrow> path \<Rightarrow> uncaught + string" where
  "read_text w p =
     (case node w p of
        Some (File s) \<Rightarrow> Inr s
      | Some Dir \<Rightarrow> Inl (Uncaught ''IsADirectoryError'')
      | None \<Rightarrow> Inl (Uncaught ''FileNotFoundError''))"


section \<open>validate_contract.py\<close>

definition SCHEMA_URL :: string where
  "SCHEMA_URL = ''https://raw.githubusercontent.com/bitol-io/open-data-contract-standard/main/schema/odcs-json-schema-v3.1.0.json''"

definition local_paths :: "path list" where
  "local_paths =
     [Path ''schema/odcs-json-schema-v3.1.0.json'',
      Path ''schema/odcs-json-schema-latest.json'']"

text \<open>The \<^verbatim>\<open>for path in local_paths\<close> loop of \<^verbatim>\<open>find_schema_file\<close>.\<close>

fun first_existing :: "world \<Rightarrow> path list \<Rightarrow> path option" where
  "first_existing w [] = None"
| "first_existing w (p # ps) =
     (let resolved = resolve w p
      in if path_exists w resolved then Some resolved else first_existing w ps)"

text \<open>
  \<^verbatim>\<open>find_schema_file()\<close>: the first conventional path that exists, else a download
  of \<open>SCHEMA_URL\<close> into a fresh temporary file (created empty before the transfer,
  and left behind when the transfer fails), else \<open>None\<close> after a warning.
\<close>

definition find_schema_file :: "world \<Rightarrow> world \<times> path option" where
  "find_schema_file w =
     (case first_existing w local_paths of
        Some resolved \<Rightarrow> (w, Some resolved)
      | None \<Rightarrow>
          (let w1 = print_line w ''Downloading schema from GitHub...'';
               tmp = resolve w1 (tmp_name w1);
               w2 = w1\<lparr>fs := (fs w1)(tmp \<mapsto> File [])\<rparr>;
               w3 = w2\<lparr>requests := requests w2 @ [SCHEMA_URL]\<rparr>
           in case http_get w3 SCHEMA_URL of
                Fetched body \<Rightarrow> (w3\<lparr>fs := (fs w3)(tmp \<mapsto> File body)\<rparr>, Some tmp)
              | URLError e \<Rightarrow>
                  (print_line w3 (''Warning: Could not download schema: '' @ e), None)))"

text \<open>Where the schema is read from once resolved.\<close>

datatype schema_source = Remote string | Local path

text \<open>
  Lines 79 to 91 of \<^verbatim>\<open>validate_contract\<close>. \<^verbatim>\<open>if schema_path:\<close> is Python truthiness:
  \<open>None\<close> and the empty string both take the \<^verbatim>\<open>else\<close> branch.
\<close>

definition is_url :: "string \<Rightarrow> bool" where
  "is_url r = (startswith r ''http://'' \<or> startswith r ''https://'')"

definition explicit_schema :: "world \<Rightarrow> string \<Rightarrow> world \<times> schema_source step" where
  "explicit_schema w r =
     (if is_url r then (w, Done (Remote r))
      else if \<not> path_exists w (Path r)
           then (w, Fail (''Schema file not found: '' @ str_path (Path r)))
           else (w, Done (Local (Path r))))"

definition auto_schema :: "world \<Rightarrow> world \<times> schema_source step" where
  "auto_schema w =
     (case find_schema_file w of
        (w', None) \<Rightarrow>
          (w', Fail (''Could not find ODCS JSON schema. Use --schema <path-or-url> or download from:\<newline>  '' @ SCHEMA_URL))
      | (w', Some p) \<Rightarrow> (w', Done (Local p)))"

definition resolve_schema :: "world \<Rightarrow> string option \<Rightarrow> world \<times> schema_source step" where
  "resolve_schema w schema_path =
     (case schema_path of
        None \<Rightarrow> auto_schema w
      | Some r \<Rightarrow> (if r \<noteq> [] then explicit_schema w r else auto_schema w))"

text \<open>Lines 93 to 98: load the contract.\<close>

definition load_contract :: "world \<Rightarrow> path \<Rightarrow> json step" where
  "load_contract w contract_path =
     (case read_text w contract_path of
        Inl (Uncaught e) \<Rightarrow> Crash e
      | Inr text \<Rightarrow>
          (case yaml_safe_load w text of
             Inl e \<Rightarrow> Fail (''Invalid YAML: '' @ e)
           | Inr contract \<Rightarrow> Done contract))"

text \<open>Lines 100 to 111: load the schema.\<close>

definition load_schema :: "world \<Rightarrow> schema_source \<Rightarrow> world \<times> json step" where
  "load_schema w src =
     (case src of
        Remote url \<Rightarrow>
          (let w1 = w\<lparr>requests := requests w @ [url]\<rparr>
           in case http_get w1 url of
                URLError e \<Rightarrow>
                  (w1, Fail (''Could not download schema from '' @ url @ '': '' @ e))
              | Fetched body \<Rightarrow>
                  (case json_loads w1 body of
                     Inl e \<Rightarrow> (w1, Fail (''Invalid JSON schema: '' @ e))
                   | Inr schema \<Rightarrow> (w1, Done schema)))
      | Local p \<Rightarrow>
          (case read_text w p of
             Inl (Uncaught e) \<Rightarrow> (w, Crash e)
           | Inr text \<Rightarrow>
               (case json_loads w text of
                  Inl e \<Rightarrow> (w, Fail (''Invalid JSON schema: '' @ e))
                | Inr schema \<Rightarrow> (w, Done schema))))"

text \<open>Lines 120 to 124: one report line per error.\<close>

fun str_elem :: "path_elem \<Rightarrow> string" where
  "str_elem (Key k) = k"
| "str_elem (Index i) = str_of_nat i"

definition format_error :: "validation_error \<Rightarrow> string" where
  "format_error error =
     (let p = (if absolute_path error \<noteq> []
               then join '' -> '' (map str_elem (absolute_path error))
               else ''root'')
      in ''  ['' @ p @ ''] '' @ message error)"

text \<open>Lines 113 to 126: validate and report.\<close>

definition report :: "validation_error list \<Rightarrow> bool \<times> string list" where
  "report errors =
     (if errors = [] then (True, [])
      else (False, map format_error errors))"

text \<open>
  \<^verbatim>\<open>validate_contract(contract_path, schema_path=None)\<close>. The result is the world after
  the call and either the returned pair \<open>(is_valid, errors_list)\<close> or the exception
  that escaped.
\<close>

definition validate_contract ::
  "world \<Rightarrow> string \<Rightarrow> string option \<Rightarrow> world \<times> (uncaught + bool \<times> string list)" where
  "validate_contract w contract_arg schema_path =
     (let contract_path = Path contract_arg in
      if \<not> path_exists w contract_path
      then (w, Inr (False, [''Contract file not found: '' @ str_path contract_path]))
      else
        (case resolve_schema w schema_path of
           (w1, Fail msg) \<Rightarrow> (w1, Inr (False, [msg]))
         | (w1, Crash e) \<Rightarrow> (w1, Inl (Uncaught e))
         | (w1, Done src) \<Rightarrow>
             (case load_contract w1 contract_path of
                Fail msg \<Rightarrow> (w1, Inr (False, [msg]))
              | Crash e \<Rightarrow> (w1, Inl (Uncaught e))
              | Done contract \<Rightarrow>
                  (case load_schema w1 src of
                     (w2, Fail msg) \<Rightarrow> (w2, Inr (False, [msg]))
                   | (w2, Crash e) \<Rightarrow> (w2, Inl (Uncaught e))
                   | (w2, Done schema) \<Rightarrow>
                       (w2, Inr (report (iter_errors w2 schema contract)))))))"



section \<open>new_contract.py\<close>

text \<open>\<^verbatim>\<open>s.replace(old, new)\<close>: every occurrence, left to right, without overlap.\<close>

function str_replace :: "string \<Rightarrow> string \<Rightarrow> string \<Rightarrow> string" where
  "str_replace old new s =
     (if old = [] then new @ concat (map (\<lambda>c. c # new) s)
      else if s = [] then []
      else if startswith s old then new @ str_replace old new (drop (length old) s)
      else hd s # str_replace old new (tl s))"
  by pat_completeness auto
termination
  by (relation "measure (\<lambda>(old, new, s). length s)") auto

text \<open>\<^verbatim>\<open>s.title()\<close> on ASCII text: a letter that follows no letter becomes upper case.\<close>

definition is_lower :: "char \<Rightarrow> bool" where
  "is_lower c = (97 \<le> (of_char c :: nat) \<and> (of_char c :: nat) \<le> 122)"

definition is_upper :: "char \<Rightarrow> bool" where
  "is_upper c = (65 \<le> (of_char c :: nat) \<and> (of_char c :: nat) \<le> 90)"

definition to_upper :: "char \<Rightarrow> char" where
  "to_upper c = (if is_lower c then char_of ((of_char c :: nat) - 32) else c)"

definition to_lower :: "char \<Rightarrow> char" where
  "to_lower c = (if is_upper c then char_of ((of_char c :: nat) + 32) else c)"

fun title_from :: "bool \<Rightarrow> string \<Rightarrow> string" where
  "title_from previous_is_cased [] = []"
| "title_from previous_is_cased (c # cs) =
     (if is_lower c
      then (if previous_is_cased then c else to_upper c) # title_from True cs
      else if is_upper c
      then (if previous_is_cased then to_lower c else c) # title_from True cs
      else c # title_from False cs)"

definition title :: "string \<Rightarrow> string" where
  "title s = title_from False s"

text \<open>\<^verbatim>\<open>x or default\<close> on an optional string: \<open>None\<close> and the empty string are falsy.\<close>

definition or_else :: "string option \<Rightarrow> string \<Rightarrow> string" where
  "or_else x d = (case x of None \<Rightarrow> d | Some s \<Rightarrow> (if s \<noteq> [] then s else d))"

text \<open>
  \<^verbatim>\<open>path.name\<close>, \<^verbatim>\<open>path.stem\<close> (the name without its last suffix, where a suffix starts
  at a dot that is neither the first nor the last character) and \<^verbatim>\<open>path.parent\<close>.
\<close>

definition path_name :: "path \<Rightarrow> string" where
  "path_name p = (if parts p = [] then [] else last (parts p))"

definition rfind_char :: "char \<Rightarrow> string \<Rightarrow> nat option" where
  "rfind_char c s =
     (case filter (\<lambda>i. s ! i = c) (rev [0..<length s]) of
        [] \<Rightarrow> None
      | i # _ \<Rightarrow> Some i)"

definition stem :: "path \<Rightarrow> string" where
  "stem p =
     (let name = path_name p
      in case rfind_char (CHR ''.'') name of
           None \<Rightarrow> name
         | Some i \<Rightarrow> (if 0 < i \<and> Suc i < length name then take i name else name))"

definition parent :: "path \<Rightarrow> path" where
  "parent p = PosixPath (anchored p) (butlast (parts p))"

text \<open>
  \<^verbatim>\<open>path.mkdir(parents=True, exist_ok=True)\<close>: every missing ancestor is created, from
  the root down. It fails where a component is a file or may not be created; what
  was created before stays. An operating-system error is named by its class.
\<close>

fun mkdir_each :: "world \<Rightarrow> path list \<Rightarrow> world \<times> string option" where
  "mkdir_each w [] = (w, None)"
| "mkdir_each w (d # ds) =
     (case node w d of
        Some Dir \<Rightarrow> mkdir_each w ds
      | Some (File _) \<Rightarrow>
          (w, Some (if ds = [] then ''FileExistsError'' else ''NotADirectoryError''))
      | None \<Rightarrow>
          (if denied w d then (w, Some ''PermissionError'')
           else mkdir_each (w\<lparr>fs := (fs w)(d \<mapsto> Dir)\<rparr>) ds))"

definition mkdir_parents :: "world \<Rightarrow> path \<Rightarrow> world \<times> string option" where
  "mkdir_parents w p =
     (let ps = parts (resolve w p)
      in mkdir_each w (map (\<lambda>n. PosixPath True (take n ps)) [1..<Suc (length ps)]))"

text \<open>\<^verbatim>\<open>path.write_text(content)\<close>\<close>

definition write_text :: "world \<Rightarrow> path \<Rightarrow> string \<Rightarrow> string + world" where
  "write_text w p content =
     (let q = resolve w p
      in case node w q of
           Some Dir \<Rightarrow> Inl ''IsADirectoryError''
         | _ \<Rightarrow>
             (case node w (parent q) of
                None \<Rightarrow> Inl ''FileNotFoundError''
              | Some (File _) \<Rightarrow> Inl ''NotADirectoryError''
              | Some Dir \<Rightarrow>
                  (if denied w q then Inl ''PermissionError''
                   else Inr (w\<lparr>fs := (fs w)(q \<mapsto> File content)\<rparr>))))"

text \<open>
  The templates, as functions of the values \<^verbatim>\<open>str.format\<close> fills in; every line ends
  with a newline.
\<close>

definition unlines :: "string list \<Rightarrow> string" where
  "unlines ls = concat (map (\<lambda>l. l @ ''\<newline>'') ls)"

definition MINIMAL_TEMPLATE :: "string \<Rightarrow> string \<Rightarrow> string" where
  \<open>MINIMAL_TEMPLATE contract_id table_name = unlines [
      ''apiVersion: v3.1.0'',
      ''kind: DataContract'',
      ''id: '' @ contract_id,
      ''version: 1.0.0'',
      ''status: draft'',
      ''schema:'',
      ''  - name: '' @ table_name,
      ''    logicalType: object'',
      ''    description: TODO - Add table description'',
      ''    properties:'',
      ''      - name: id'',
      ''        logicalType: integer'',
      ''        primaryKey: true'',
      ''        required: true'',
      ''        description: Primary key''
    ]\<close>

definition FULL_TEMPLATE ::
  "string \<Rightarrow> string \<Rightarrow> string \<Rightarrow> string \<Rightarrow> string \<Rightarrow> string \<Rightarrow> string \<Rightarrow> string \<Rightarrow> string" where
  \<open>FULL_TEMPLATE contract_id timestamp date name domain data_product tenant table_name = unlines [
      ''# ODCS v3.1.0 Data Contract'',
      ''# Generated: '' @ timestamp,
      '''',
      ''apiVersion: v3.1.0'',
      ''kind: DataContract'',
      ''id: '' @ contract_id,
      ''version: 1.0.0'',
      ''status: draft'',
      '''',
      ''# Metadata'',
      ''name: '' @ name,
      ''domain: '' @ domain,
      ''dataProduct: '' @ data_product,
      ''tenant: '' @ tenant,
      ''tags: []'',
      '''',
      ''description:'',
      ''  purpose: TODO - Describe the intended use of this data'',
      ''  limitations: TODO - Document any constraints or limitations'',
      ''  usage: TODO - Describe recommended usage patterns'',
      '''',
      ''# Schema Definition'',
      ''schema:'',
      ''  - name: '' @ table_name,
      ''    id: '' @ table_name @ ''_tbl'',
      ''    logicalType: object'',
      ''    physicalType: table'',
      ''    businessName: TODO - Business friendly name'',
      ''    description: TODO - Add table description'',
      ''    dataGranularityDescription: TODO - e.g., One row per transaction'',
      '''',
      ''    properties:'',
      ''      - name: id'',
      ''        id: id_col'',
      ''        logicalType: integer'',
      ''        physicalType: bigint'',
      ''        primaryKey: true'',
      ''        primaryKeyPosition: 1'',
      ''        required: true'',
      ''        unique: true'',
      ''        description: Unique identifier'',
      ''        classification: public'',
      '''',
      ''      # TODO: Add more columns'',
      ''      # - name: column_name'',
      ''      #   logicalType: string|number|integer|date|timestamp|boolean'',
      ''      #   physicalType: varchar(255)'',
      ''      #   required: true|false'',
      ''      #   description: Column description'',
      '''',
      ''# Data Quality Rules (optional)'',
      ''# quality:'',
      ''#   - type: library'',
      ''#     metric: rowCount'',
      ''#     mustBeGreaterThan: 0'',
      ''#     dimension: completeness'',
      ''#     severity: error'',
      '''',
      ''# Server Configuration (optional)'',
      ''# servers:'',
      ''#   - server: my-database'',
      ''#     type: postgres'',
      ''#     host: localhost'',
      ''#     port: 5432'',
      ''#     database: mydb'',
      ''#     schema: public'',
      ''#     environment: dev'',
      '''',
      ''# SLA Properties (optional)'',
      ''# slaProperties:'',
      ''#   - property: latency'',
      ''#     value: 24'',
      ''#     unit: d'',
      ''#   - property: retention'',
      ''#     value: 7'',
      ''#     unit: y'',
      '''',
      ''# Team (optional)'',
      ''# team:'',
      ''#   name: data-team'',
      ''#   members:'',
      ''#     - username: owner@company.com'',
      ''#       role: Owner'',
      ''#       dateIn: "'' @ date @ ''"'',
      '''',
      ''# Roles (optional)'',
      ''# roles:'',
      ''#   - role: read_access'',
      ''#     access: read'',
      ''#     description: Read access for analytics'',
      '''',
      ''# Support Channels (optional)'',
      ''# support:'',
      ''#   - channel: "#data-help"'',
      ''#     tool: slack'',
      ''#     scope: interactive'',
      '''',
      ''contractCreatedTs: "'' @ timestamp @ ''"''
    ]\<close>

text \<open>
  Lines 159 to 188 of \<^verbatim>\<open>generate_contract\<close>: the generated values, the names derived
  from the file name, and the filled template.
\<close>

definition render_contract ::
  "world \<Rightarrow> path \<Rightarrow> string option \<Rightarrow> string option \<Rightarrow> bool \<Rightarrow> string" where
  "render_contract w output_path name domain minimal =
     (let contract_id = uuid4 w;
          timestamp = now_isoformat w;
          date = now_date w;
          base_name = str_replace '' '' ''_''
                        (str_replace ''-'' ''_'' (str_replace ''.odcs'' [] (stem output_path)));
          table_name = (if base_name \<noteq> [] then base_name else ''my_table'');
          name1 = or_else name (title (str_replace ''_'' '' '' base_name));
          domain1 = or_else domain ''TODO'';
          data_product = base_name;
          tenant = ''TODO''
      in if minimal then MINIMAL_TEMPLATE contract_id table_name
         else FULL_TEMPLATE contract_id timestamp date name1 domain1
                data_product tenant table_name)"

text \<open>
  \<^verbatim>\<open>generate_contract(output_path, name=None, domain=None, minimal=False)\<close>: the world
  after the call and the returned path, or \<open>None\<close>.
\<close>

definition generate_contract ::
  "world \<Rightarrow> string \<Rightarrow> string option \<Rightarrow> string option \<Rightarrow> bool \<Rightarrow> world \<times> path option" where
  "generate_contract w output_arg name domain minimal =
     (let output_path = Path output_arg in
      if path_exists w output_path
      then (print_line w (cross_mark @ '' Error: File already exists: '' @ str_path output_path),
            None)
      else
        (let content = render_contract w output_path name domain minimal
         in case mkdir_parents w (parent output_path) of
              (w1, Some e) \<Rightarrow>
                (print_line w1 (cross_mark @ '' Error writing file: '' @ e), None)
            | (w1, None) \<Rightarrow>
                (case write_text w1 output_path content of
                   Inl e \<Rightarrow>
                     (print_line w1 (cross_mark @ '' Error writing file: '' @ e), None)
                 | Inr w2 \<Rightarrow>
                     (print_line w2 (check_mark @ '' Created contract: '' @ str_path output_path),
                      Some output_path))))"

text \<open>\<^verbatim>\<open>main()\<close> of the generator, after argument parsing: the exit code.\<close>

definition new_contract_main ::
  "world \<Rightarrow> string \<Rightarrow> string option \<Rightarrow> string option \<Rightarrow> bool \<Rightarrow> world \<times> nat" where
  "new_contract_main w output name domain minimal =
     (case generate_contract w output name domain minimal of
        (w', result) \<Rightarrow> (w', if result \<noteq> None then 0 else 1))"


section \<open>An example environment\<close>

text \<open>
  A small concrete world on which the definitions above can be run: a working
  directory \<open>/work\<close> with a few contract files, a schema under the conventional
  \<open>schema/\<close> directory, no network, and stand-ins for the three libraries.
\<close>

definition stub_yaml :: "string \<Rightarrow> string + json" where
  "stub_yaml s = (if s = [] then Inr JNull
                  else if s = ''{'' then Inl ''while parsing a flow mapping''
                  else Inr (JObj [(''kind'', JStr s)]))"

definition stub_json :: "string \<Rightarrow> string + json" where
  "stub_json s = (if s = ''{}'' then Inr (JObj [])
                  else if s = ''object'' then Inr (JObj [(''type'', JStr ''object'')])
                  else Inl ''Expecting value'')"

definition stub_iter_errors :: "json \<Rightarrow> json \<Rightarrow> validation_error list" where
  "stub_iter_errors schema doc =
     (if schema = JObj [(''type'', JStr ''object'')] then
        (case doc of
           JObj kvs \<Rightarrow> (if kvs = [(''kind'', JStr ''DataContract'')] then []
                        else [ValidationError [Key ''kind''] ''is not DataContract'',
                              ValidationError [Key ''schema'', Index 12, Key ''name''] ''is required''])
         | _ \<Rightarrow> [ValidationError [] ''None is not of type object''])
      else [])"

definition demo_fs :: "path \<Rightarrow> fnode option" where
  "demo_fs = [PosixPath True [''work''] \<mapsto> Dir,
              PosixPath True [''other''] \<mapsto> Dir,
              PosixPath True [''work'', ''good.yaml''] \<mapsto> File ''DataContract'',
              PosixPath True [''work'', ''poor.yaml''] \<mapsto> File ''Other'',
              PosixPath True [''work'', ''empty.yaml''] \<mapsto> File [],
              PosixPath True [''work'', ''broken.yaml''] \<mapsto> File ''{'',
              PosixPath True [''work'', ''my.json''] \<mapsto> File ''object'',
              PosixPath True [''work'', ''schema''] \<mapsto> Dir,
              PosixPath True [''work'', ''schema'', ''odcs-json-schema-latest.json''] \<mapsto> File ''object'']"

definition demo :: world where
  "demo = \<lparr>cwd = [''work''], fs = demo_fs, denied = (\<lambda>p. False), stdout = [], requests = [],
           http_get = (\<lambda>u. URLError ''<urlopen error offline>''),
           tmp_name = PosixPath True [''tmp'', ''tmpab12.json''],
           yaml_safe_load = stub_yaml, json_loads = stub_json, iter_errors = stub_iter_errors,
           uuid4 = ''0b9e'', now_isoformat = ''2026-01-01T00:00:00+00:00'', now_date = ''2026-01-01''\<rparr>"

text \<open>The same world started from a directory that has no \<open>schema/\<close> beside it.\<close>

definition demo_elsewhere :: world where
  "demo_elsewhere = demo\<lparr>cwd := [''other'']\<rparr>"

text \<open>The same world with the versioned schema file present as well.\<close>

definition demo_both :: world where
  "demo_both = demo\<lparr>fs := (fs demo)
     (PosixPath True [''work'', ''schema'', ''odcs-json-schema-v3.1.0.json''] \<mapsto> File ''{}'')\<rparr>"


section \<open>The report line as the specification words it\<close>

text \<open>
  The specification's rendering of a violation: the path in brackets, a space, the
  message; path segments joined by \<open>" -> "\<close>, the empty path written \<open>root\<close>.
\<close>

definition spec_violation_line :: "validation_error \<Rightarrow> string" where
  "spec_violation_line e =
     ''['' @ (if absolute_path e = [] then ''root''
              else join '' -> '' (map str_elem (absolute_path e))) @ ''] '' @ message e"


section \<open>Properties of the validator\<close>

subsection \<open>Auxiliary facts\<close>

text \<open>Resolving and loading the schema leave the libraries as they are.\<close>

lemma resolve_schema_libs:
  "iter_errors (fst (resolve_schema w s)) = iter_errors w"
  "json_loads (fst (resolve_schema w s)) = json_loads w"
  "yaml_safe_load (fst (resolve_schema w s)) = yaml_safe_load w"
  by (auto simp: resolve_schema_def explicit_schema_def auto_schema_def find_schema_file_def
        print_line_def Let_def split: option.splits fetch_result.splits prod.splits)

lemma load_schema_libs:
  "iter_errors (fst (load_schema w src)) = iter_errors w"
  by (auto simp: load_schema_def Let_def
           split: schema_source.splits fetch_result.splits sum.splits uncaught.splits)

text \<open>When every step before it succeeds, the result is the report of the validator.\<close>

lemma validate_contract_runs:
  assumes "path_exists w (Path c)"
    and "snd (resolve_schema w s) = Done src"
    and "load_contract (fst (resolve_schema w s)) (Path c) = Done contract"
    and "snd (load_schema (fst (resolve_schema w s)) src) = Done schema"
  shows "snd (validate_contract w c s) = Inr (report (iter_errors w schema contract))"
proof -
  obtain w1 where r: "resolve_schema w s = (w1, Done src)"
    using assms(2) by (cases "resolve_schema w s") auto
  obtain w2 where l: "load_schema w1 src = (w2, Done schema)"
    using assms(4) r by (cases "load_schema w1 src") auto
  have i: "iter_errors w2 = iter_errors w"
    using load_schema_libs [of w1 src] resolve_schema_libs(1) [of w s] r l by simp
  show ?thesis
    using assms(1,3) r l i by (simp add: validate_contract_def)
qed

text \<open>A report line starts with a space; none of the load messages does.\<close>

lemma format_error_hd: "\<exists>rest. format_error e = CHR '' '' # rest"
  by (simp add: format_error_def Let_def)


subsection \<open>The outcome invariant\<close>

text \<open>
  Claim C2. Whatever the contract path and the schema source, a pair returned by
  \<open>validate_contract\<close> has \<open>is_valid\<close> true exactly when its list of messages is
  empty.
\<close>

theorem validate_contract_invariant:
  "snd (validate_contract w contract_arg schema_path) = Inr (is_valid, errors)
   \<Longrightarrow> is_valid = (errors = [])"
  by (auto simp: validate_contract_def report_def Let_def
           split: if_splits prod.splits step.splits)

theorem validate_contract_invariant_witness:
  "snd (validate_contract demo ''poor.yaml'' None)
     = Inr (False, [''  [kind] is not DataContract'', ''  [schema -> 12 -> name] is required''])
   \<and> False = ([''  [kind] is not DataContract'', ''  [schema -> 12 -> name] is required''] = [])"
proof -
  have h: "snd (validate_contract demo ''poor.yaml'' None)
     = Inr (False, [''  [kind] is not DataContract'', ''  [schema -> 12 -> name] is required''])"
    by code_simp
  from validate_contract_invariant [OF h] h show ?thesis by simp
qed


subsection \<open>Every violation is collected\<close>

text \<open>
  Claim C3. When the contract and the schema both load, the returned list has one
  line for each error the Draft 2019-09 validator yields for the whole document, in
  the validator's order, and \<open>is_valid\<close> says whether that number is zero.
\<close>

theorem validation_collects_every_violation:
  assumes "path_exists w (Path c)"
    and "snd (resolve_schema w s) = Done src"
    and "load_contract (fst (resolve_schema w s)) (Path c) = Done contract"
    and "snd (load_schema (fst (resolve_schema w s)) src) = Done schema"
  shows "\<exists>lines. snd (validate_contract w c s)
                    = Inr (length (iter_errors w schema contract) = 0, lines)
               \<and> length lines = length (iter_errors w schema contract)
               \<and> (\<forall>i < length lines.
                     lines ! i = format_error (iter_errors w schema contract ! i))"
proof -
  have "snd (validate_contract w c s) = Inr (report (iter_errors w schema contract))"
    using validate_contract_runs [OF assms] .
  then show ?thesis by (simp add: report_def)
qed

theorem validation_collects_every_violation_witness:
  "path_exists demo (Path ''poor.yaml'')
   \<and> snd (resolve_schema demo (Some ''my.json'')) = Done (Local (Path ''my.json''))
   \<and> load_contract (fst (resolve_schema demo (Some ''my.json''))) (Path ''poor.yaml'')
       = Done (JObj [(''kind'', JStr ''Other'')])
   \<and> snd (load_schema (fst (resolve_schema demo (Some ''my.json''))) (Local (Path ''my.json'')))
       = Done (JObj [(''type'', JStr ''object'')])
   \<and> (\<exists>lines. snd (validate_contract demo ''poor.yaml'' (Some ''my.json'')) = Inr (False, lines)
         \<and> length lines = 2)"
proof -
  have h1: "path_exists demo (Path ''poor.yaml'')" by code_simp
  have h2: "snd (resolve_schema demo (Some ''my.json'')) = Done (Local (Path ''my.json''))"
    by code_simp
  have h3: "load_contract (fst (resolve_schema demo (Some ''my.json''))) (Path ''poor.yaml'')
       = Done (JObj [(''kind'', JStr ''Other'')])" by code_simp
  have h4: "snd (load_schema (fst (resolve_schema demo (Some ''my.json''))) (Local (Path ''my.json'')))
       = Done (JObj [(''type'', JStr ''object'')])" by code_simp
  have n: "length (iter_errors demo (JObj [(''type'', JStr ''object'')])
                     (JObj [(''kind'', JStr ''Other'')])) = 2" by code_simp
  from validation_collects_every_violation [OF h1 h2 h3 h4] n h1 h2 h3 h4
  show ?thesis by auto
qed


subsection \<open>The form of a report line\<close>

text \<open>
  Claim C7, as stated: every rendered violation line is \<open>[path] message\<close>. The line
  the validator returns for a violation at the root of an empty contract starts with
  two spaces, so it is not the line the specification words.
\<close>

theorem violation_line_counterexample:
  "snd (validate_contract demo ''empty.yaml'' (Some ''my.json''))
     = Inr (False, [''  [root] None is not of type object''])
   \<and> ''  [root] None is not of type object''
       \<noteq> spec_violation_line (ValidationError [] ''None is not of type object'')"
  by code_simp

text \<open>
  Claim C7, amended. Every rendered violation line is two spaces of indentation
  followed by \<open>[path] message\<close>, where the path is the property names and array
  indices from the document root joined by \<open>" -> "\<close>, and \<open>root\<close> for the empty
  path. The lines are in the order of the validator's errors.
\<close>

theorem violation_line_format:
  assumes "path_exists w (Path c)"
    and "snd (resolve_schema w s) = Done src"
    and "load_contract (fst (resolve_schema w s)) (Path c) = Done contract"
    and "snd (load_schema (fst (resolve_schema w s)) src) = Done schema"
    and "snd (validate_contract w c s) = Inr (is_valid, lines)"
    and "i < length lines"
  shows "lines ! i = ''  '' @ spec_violation_line (iter_errors w schema contract ! i)"
proof -
  have "Inr (is_valid, lines) = Inr (report (iter_errors w schema contract))"
    using validate_contract_runs [OF assms(1-4)] assms(5) by simp
  then have "lines = map format_error (iter_errors w schema contract)"
    using assms(6) by (auto simp: report_def split: if_splits)
  then show ?thesis
    using assms(6) by (simp add: format_error_def spec_violation_line_def Let_def)
qed

theorem violation_line_format_witness:
  "path_exists demo (Path ''poor.yaml'')
   \<and> snd (resolve_schema demo None)
       = Done (Local (PosixPath True [''work'', ''schema'', ''odcs-json-schema-latest.json'']))
   \<and> load_contract (fst (resolve_schema demo None)) (Path ''poor.yaml'')
       = Done (JObj [(''kind'', JStr ''Other'')])
   \<and> snd (load_schema (fst (resolve_schema demo None))
             (Local (PosixPath True [''work'', ''schema'', ''odcs-json-schema-latest.json''])))
       = Done (JObj [(''type'', JStr ''object'')])
   \<and> snd (validate_contract demo ''poor.yaml'' None)
       = Inr (False, [''  [kind] is not DataContract'', ''  [schema -> 12 -> name] is required''])
   \<and> (1::nat) < length [''  [kind] is not DataContract'', ''  [schema -> 12 -> name] is required'']
   \<and> [''  [kind] is not DataContract'', ''  [schema -> 12 -> name] is required''] ! 1
       = ''  '' @ spec_violation_line
            (iter_errors demo (JObj [(''type'', JStr ''object'')]) (JObj [(''kind'', JStr ''Other'')]) ! 1)"
proof -
  have h1: "path_exists demo (Path ''poor.yaml'')" by code_simp
  have h2: "snd (resolve_schema demo None)
       = Done (Local (PosixPath True [''work'', ''schema'', ''odcs-json-schema-latest.json'']))"
    by code_simp
  have h3: "load_contract (fst (resolve_schema demo None)) (Path ''poor.yaml'')
       = Done (JObj [(''kind'', JStr ''Other'')])" by code_simp
  have h4: "snd (load_schema (fst (resolve_schema demo None))
             (Local (PosixPath True [''work'', ''schema'', ''odcs-json-schema-latest.json''])))
       = Done (JObj [(''type'', JStr ''object'')])" by code_simp
  have h5: "snd (validate_contract demo ''poor.yaml'' None)
       = Inr (False, [''  [kind] is not DataContract'', ''  [schema -> 12 -> name] is required''])"
    by code_simp
  have h6: "(1::nat) < length [''  [kind] is not DataContract'', ''  [schema -> 12 -> name] is required'']"
    by simp
  from violation_line_format [OF h1 h2 h3 h4 h5 h6] h1 h2 h3 h4 h5 h6
  show ?thesis by blast
qed


subsection \<open>A contract that parses to null\<close>

text \<open>
  Claim C10. A contract file that exists and parses to YAML null (an empty file,
  for one) is not a load failure: once the schema is resolved and loaded, the
  validator is run on the null value and the returned pair is its report, never an
  \<open>Invalid YAML\<close> message.
\<close>

theorem null_document_is_validated:
  assumes "path_exists w (Path c)"
    and "snd (resolve_schema w s) = Done src"
    and "read_text (fst (resolve_schema w s)) (Path c) = Inr text"
    and "yaml_safe_load w text = Inr JNull"
    and "snd (load_schema (fst (resolve_schema w s)) src) = Done schema"
  shows "load_contract (fst (resolve_schema w s)) (Path c) = Done JNull
       \<and> snd (validate_contract w c s)
           = Inr (iter_errors w schema JNull = [], map format_error (iter_errors w schema JNull))
       \<and> (\<forall>e. snd (validate_contract w c s) \<noteq> Inr (False, [''Invalid YAML: '' @ e]))"
proof -
  have lc: "load_contract (fst (resolve_schema w s)) (Path c) = Done JNull"
    using assms(3,4) resolve_schema_libs(3) [of w s] by (simp add: load_contract_def)
  have res: "snd (validate_contract w c s) = Inr (report (iter_errors w schema JNull))"
    using validate_contract_runs [OF assms(1,2) lc assms(5)] .
  have "snd (validate_contract w c s) \<noteq> Inr (False, [''Invalid YAML: '' @ e])" for e
  proof (cases "iter_errors w schema JNull")
    case Nil
    then show ?thesis using res by (simp add: report_def)
  next
    case (Cons x xs)
    obtain rest where "format_error x = CHR '' '' # rest"
      using format_error_hd by blast
    then show ?thesis using res Cons by (auto simp: report_def)
  qed
  then show ?thesis using lc res by (simp add: report_def)
qed

theorem null_document_is_validated_witness:
  "path_exists demo (Path ''empty.yaml'')
   \<and> snd (resolve_schema demo (Some ''my.json'')) = Done (Local (Path ''my.json''))
   \<and> read_text (fst (resolve_schema demo (Some ''my.json''))) (Path ''empty.yaml'') = Inr []
   \<and> yaml_safe_load demo [] = Inr JNull
   \<and> snd (load_schema (fst (resolve_schema demo (Some ''my.json''))) (Local (Path ''my.json'')))
       = Done (JObj [(''type'', JStr ''object'')])
   \<and> snd (validate_contract demo ''empty.yaml'' (Some ''my.json''))
       = Inr (False, [''  [root] None is not of type object''])"
proof -
  have h1: "path_exists demo (Path ''empty.yaml'')" by code_simp
  have h2: "snd (resolve_schema demo (Some ''my.json'')) = Done (Local (Path ''my.json''))"
    by code_simp
  have h3: "read_text (fst (resolve_schema demo (Some ''my.json''))) (Path ''empty.yaml'') = Inr []"
    by code_simp
  have h4: "yaml_safe_load demo [] = Inr JNull" by code_simp
  have h5: "snd (load_schema (fst (resolve_schema demo (Some ''my.json''))) (Local (Path ''my.json'')))
       = Done (JObj [(''type'', JStr ''object'')])" by code_simp
  have v: "iter_errors demo (JObj [(''type'', JStr ''object'')]) JNull
             = [ValidationError [] ''None is not of type object'']" by code_simp
  have f: "format_error (ValidationError [] ''None is not of type object'')
             = ''  [root] None is not of type object''" by code_simp
  from null_document_is_validated [OF h1 h2 h3 h4 h5] v f h1 h2 h3 h4 h5
  show ?thesis by simp
qed


subsection \<open>The order in which the conventional paths are probed\<close>

lemma resolve_anchored: "is_absolute (resolve w p)"
  by (simp add: resolve_def is_absolute_def)

text \<open>
  Claim C5. Without an explicit reference, \<open>find_schema_file\<close> tries the versioned
  file name first and the \<open>latest\<close> alias second, and returns the first that exists,
  as an absolute path, leaving the world untouched. The download from \<open>SCHEMA_URL\<close>
  is requested when neither exists, and only then.
\<close>

theorem find_schema_file_probes_in_order:
  "let v = resolve w (Path ''schema/odcs-json-schema-v3.1.0.json'');
       l = resolve w (Path ''schema/odcs-json-schema-latest.json'')
   in is_absolute v \<and> is_absolute l
    \<and> (path_exists w v \<longrightarrow> find_schema_file w = (w, Some v))
    \<and> (\<not> path_exists w v \<and> path_exists w l \<longrightarrow> find_schema_file w = (w, Some l))
    \<and> (\<not> path_exists w v \<and> \<not> path_exists w l \<longrightarrow>
          requests (fst (find_schema_file w)) = requests w @ [SCHEMA_URL])
    \<and> (requests (fst (find_schema_file w)) \<noteq> requests w \<longrightarrow>
          \<not> path_exists w v \<and> \<not> path_exists w l)"
  by (auto simp: Let_def resolve_anchored find_schema_file_def local_paths_def print_line_def
           split: fetch_result.splits)

theorem find_schema_file_probes_in_order_witness:
  "path_exists demo_both (resolve demo_both (Path ''schema/odcs-json-schema-v3.1.0.json''))
   \<and> snd (find_schema_file demo_both)
       = Some (PosixPath True [''work'', ''schema'', ''odcs-json-schema-v3.1.0.json''])
   \<and> \<not> path_exists demo (resolve demo (Path ''schema/odcs-json-schema-v3.1.0.json''))
   \<and> path_exists demo (resolve demo (Path ''schema/odcs-json-schema-latest.json''))
   \<and> snd (find_schema_file demo)
       = Some (PosixPath True [''work'', ''schema'', ''odcs-json-schema-latest.json''])
   \<and> \<not> path_exists demo_elsewhere
         (resolve demo_elsewhere (Path ''schema/odcs-json-schema-v3.1.0.json''))
   \<and> \<not> path_exists demo_elsewhere
         (resolve demo_elsewhere (Path ''schema/odcs-json-schema-latest.json''))
   \<and> requests (fst (find_schema_file demo_elsewhere)) = requests demo_elsewhere @ [SCHEMA_URL]"
proof -
  have a: "path_exists demo_both (resolve demo_both (Path ''schema/odcs-json-schema-v3.1.0.json''))"
    by code_simp
  have a': "resolve demo_both (Path ''schema/odcs-json-schema-v3.1.0.json'')
              = PosixPath True [''work'', ''schema'', ''odcs-json-schema-v3.1.0.json'']"
    by code_simp
  have b: "\<not> path_exists demo (resolve demo (Path ''schema/odcs-json-schema-v3.1.0.json''))"
    by code_simp
  have c: "path_exists demo (resolve demo (Path ''schema/odcs-json-schema-latest.json''))"
    by code_simp
  have c': "resolve demo (Path ''schema/odcs-json-schema-latest.json'')
              = PosixPath True [''work'', ''schema'', ''odcs-json-schema-latest.json'']"
    by code_simp
  have d: "\<not> path_exists demo_elsewhere
             (resolve demo_elsewhere (Path ''schema/odcs-json-schema-v3.1.0.json''))"
    by code_simp
  have e: "\<not> path_exists demo_elsewhere
             (resolve demo_elsewhere (Path ''schema/odcs-json-schema-latest.json''))"
    by code_simp
  from find_schema_file_probes_in_order [of demo_both] a
  have 1: "snd (find_schema_file demo_both)
       = Some (PosixPath True [''work'', ''schema'', ''odcs-json-schema-v3.1.0.json''])"
    unfolding Let_def a' by simp
  from find_schema_file_probes_in_order [of demo] b c
  have 2: "snd (find_schema_file demo)
       = Some (PosixPath True [''work'', ''schema'', ''odcs-json-schema-latest.json''])"
    unfolding Let_def c' by simp
  from find_schema_file_probes_in_order [of demo_elsewhere] d e
  have 3: "requests (fst (find_schema_file demo_elsewhere)) = requests demo_elsewhere @ [SCHEMA_URL]"
    unfolding Let_def by blast
  from a b c d e 1 2 3 show ?thesis by blast
qed


subsection \<open>A failed download\<close>




subsection \<open>An explicit schema reference\<close>

text \<open>
  Claim C4, as stated: an explicit reference is always used, with no fallback. The
  empty string is a reference the command line can pass; it is falsy, so the
  conventional path is used where it exists, and otherwise the download is tried,
  although the local path it names (the working directory) exists.
\<close>

theorem explicit_schema_counterexample:
  "snd (resolve_schema demo (Some []))
     = Done (Local (PosixPath True [''work'', ''schema'', ''odcs-json-schema-latest.json'']))
   \<and> snd (validate_contract demo ''good.yaml'' (Some [])) = Inr (True, [])
   \<and> path_exists demo_elsewhere (Path [])
   \<and> requests (fst (validate_contract demo_elsewhere ''/work/good.yaml'' (Some []))) = [SCHEMA_URL]
   \<and> stdout (fst (validate_contract demo_elsewhere ''/work/good.yaml'' (Some [])))
       = [''Downloading schema from GitHub...'',
          ''Warning: Could not download schema: <urlopen error offline>'']"
  by code_simp

text \<open>
  Claim C4, amended. When the caller supplies a non-empty schema reference and the
  contract file exists, the reference is used and no fallback is attempted: a
  reference starting with \<open>http://\<close> or \<open>https://\<close> is the one URL requested, any other
  reference is read as a local path, and when that path does not exist the result
  is the \<open>Schema file not found\<close> message, whatever the conventional paths and the
  canonical URL hold. Nothing is printed, no file is created, and no other URL is
  requested.
\<close>

theorem explicit_schema_is_used:
  assumes "r \<noteq> []" and "path_exists w (Path c)"
  shows "(is_url r \<longrightarrow> resolve_schema w (Some r) = (w, Done (Remote r)))
       \<and> (\<not> is_url r \<and> path_exists w (Path r) \<longrightarrow>
            resolve_schema w (Some r) = (w, Done (Local (Path r))))
       \<and> (\<not> is_url r \<and> \<not> path_exists w (Path r) \<longrightarrow>
            validate_contract w c (Some r)
              = (w, Inr (False, [''Schema file not found: '' @ str_path (Path r)])))
       \<and> (\<forall>contract. is_url r \<and> load_contract w (Path c) = Done contract \<longrightarrow>
            requests (fst (validate_contract w c (Some r))) = requests w @ [r]
            \<and> snd (validate_contract w c (Some r))
                = (case http_get w r of
                     URLError e \<Rightarrow>
                       Inr (False, [''Could not download schema from '' @ r @ '': '' @ e])
                   | Fetched body \<Rightarrow>
                       (case json_loads w body of
                          Inl e \<Rightarrow> Inr (False, [''Invalid JSON schema: '' @ e])
                        | Inr schema \<Rightarrow> Inr (report (iter_errors w schema contract)))))
       \<and> (\<forall>contract. \<not> is_url r \<and> path_exists w (Path r)
                       \<and> load_contract w (Path c) = Done contract \<longrightarrow>
            snd (validate_contract w c (Some r))
              = (case read_text w (Path r) of
                   Inl e \<Rightarrow> Inl e
                 | Inr text \<Rightarrow>
                     (case json_loads w text of
                        Inl e \<Rightarrow> Inr (False, [''Invalid JSON schema: '' @ e])
                      | Inr schema \<Rightarrow> Inr (report (iter_errors w schema contract)))))
       \<and> fs (fst (validate_contract w c (Some r))) = fs w
       \<and> stdout (fst (validate_contract w c (Some r))) = stdout w
       \<and> (requests (fst (validate_contract w c (Some r))) = requests w
            \<or> is_url r \<and> requests (fst (validate_contract w c (Some r))) = requests w @ [r])"
proof -
  have 1: "is_url r \<longrightarrow> resolve_schema w (Some r) = (w, Done (Remote r))"
    using assms(1) by (simp add: resolve_schema_def explicit_schema_def)
  have 2: "\<not> is_url r \<and> path_exists w (Path r) \<longrightarrow>
            resolve_schema w (Some r) = (w, Done (Local (Path r)))"
    using assms(1) by (simp add: resolve_schema_def explicit_schema_def)
  have 3: "\<not> is_url r \<and> \<not> path_exists w (Path r) \<longrightarrow>
            validate_contract w c (Some r)
              = (w, Inr (False, [''Schema file not found: '' @ str_path (Path r)]))"
    using assms by (simp add: validate_contract_def resolve_schema_def explicit_schema_def)
  have 4: "requests (fst (validate_contract w c (Some r))) = requests w @ [r]
            \<and> snd (validate_contract w c (Some r))
                = (case http_get w r of
                     URLError e \<Rightarrow>
                       Inr (False, [''Could not download schema from '' @ r @ '': '' @ e])
                   | Fetched body \<Rightarrow>
                       (case json_loads w body of
                          Inl e \<Rightarrow> Inr (False, [''Invalid JSON schema: '' @ e])
                        | Inr schema \<Rightarrow> Inr (report (iter_errors w schema contract))))"
    if "is_url r" "load_contract w (Path c) = Done contract" for contract
    using assms that
    by (auto simp: validate_contract_def resolve_schema_def explicit_schema_def
          load_schema_def Let_def split: fetch_result.splits sum.splits)
  have 5: "snd (validate_contract w c (Some r))
              = (case read_text w (Path r) of
                   Inl e \<Rightarrow> Inl e
                 | Inr text \<Rightarrow>
                     (case json_loads w text of
                        Inl e \<Rightarrow> Inr (False, [''Invalid JSON schema: '' @ e])
                      | Inr schema \<Rightarrow> Inr (report (iter_errors w schema contract))))"
    if "\<not> is_url r" "path_exists w (Path r)" "load_contract w (Path c) = Done contract"
    for contract
    using assms that
    by (auto simp: validate_contract_def resolve_schema_def explicit_schema_def
          load_schema_def Let_def split: sum.splits uncaught.splits)
  have 6: "fs (fst (validate_contract w c (Some r))) = fs w
       \<and> stdout (fst (validate_contract w c (Some r))) = stdout w
       \<and> (requests (fst (validate_contract w c (Some r))) = requests w
            \<or> is_url r \<and> requests (fst (validate_contract w c (Some r))) = requests w @ [r])"
    using assms
    by (auto simp: validate_contract_def resolve_schema_def explicit_schema_def
          load_schema_def Let_def
          split: step.splits fetch_result.splits sum.splits uncaught.splits)
  from 1 2 3 4 5 6 show ?thesis by blast
qed

theorem explicit_schema_is_used_witness:
  "''nope.json'' \<noteq> [] \<and> path_exists demo (Path ''good.yaml'')
   \<and> \<not> is_url ''nope.json'' \<and> \<not> path_exists demo (Path ''nope.json'')
   \<and> path_exists demo (resolve demo (Path ''schema/odcs-json-schema-latest.json''))
   \<and> snd (validate_contract demo ''good.yaml'' (Some ''nope.json''))
       = Inr (False, [''Schema file not found: nope.json''])
   \<and> stdout (fst (validate_contract demo ''good.yaml'' (Some ''nope.json''))) = stdout demo
   \<and> is_url ''https://example.org/odcs.json''
   \<and> load_contract demo (Path ''good.yaml'') = Done (JObj [(''kind'', JStr ''DataContract'')])
   \<and> requests (fst (validate_contract demo ''good.yaml'' (Some ''https://example.org/odcs.json'')))
       = requests demo @ [''https://example.org/odcs.json'']"
proof -
  have n: "''nope.json'' \<noteq> []" "''https://example.org/odcs.json'' \<noteq> []" by simp_all
  have c: "path_exists demo (Path ''good.yaml'')" by code_simp
  have a: "\<not> is_url ''nope.json''" "\<not> path_exists demo (Path ''nope.json'')"
    "path_exists demo (resolve demo (Path ''schema/odcs-json-schema-latest.json''))"
    "is_url ''https://example.org/odcs.json''"
    "load_contract demo (Path ''good.yaml'') = Done (JObj [(''kind'', JStr ''DataContract'')])"
    by code_simp+
  have s: "str_path (Path ''nope.json'') = ''nope.json''" by code_simp
  from explicit_schema_is_used [OF n(1) c] explicit_schema_is_used [OF n(2) c] n c a s
  show ?thesis by simp
qed


subsection \<open>Load and resolution failures\<close>

text \<open>What the validator returns does not depend on what was printed before.\<close>

lemma stdout_irrelevant [simp]:
  "path_exists (w\<lparr>stdout := out\<rparr>) p = path_exists w p"
  "resolve (w\<lparr>stdout := out\<rparr>) p = resolve w p"
  "read_text (w\<lparr>stdout := out\<rparr>) p = read_text w p"
  by (simp_all add: path_exists_def node_def resolve_def read_text_def)



lemma load_contract_stdout [simp]:
  "load_contract (w\<lparr>stdout := out\<rparr>) p = load_contract w p"
  by (auto simp: load_contract_def split: sum.splits uncaught.splits)














section \<open>Properties of the generator\<close>

subsection \<open>No overwriting\<close>

lemma mkdir_each_cwd: "cwd (fst (mkdir_each w ds)) = cwd w"
  by (induction ds arbitrary: w) (auto split: option.splits fnode.splits)

lemma generate_contract_success:
  assumes "snd (generate_contract w out name domain minimal) \<noteq> None"
  shows "node (fst (generate_contract w out name domain minimal)) (Path out)
           = Some (File (render_contract w (Path out) name domain minimal))
       \<and> cwd (fst (generate_contract w out name domain minimal)) = cwd w
       \<and> snd (generate_contract w out name domain minimal) = Some (Path out)"
proof -
  have ne: "\<not> path_exists w (Path out)"
    using assms by (auto simp: generate_contract_def Let_def)
  obtain w1 e where m: "mkdir_parents w (parent (Path out)) = (w1, e)"
    by (cases "mkdir_parents w (parent (Path out))") auto
  have "cwd (fst (mkdir_parents w (parent (Path out)))) = cwd w"
    by (simp add: mkdir_parents_def Let_def mkdir_each_cwd)
  then have c1: "cwd w1 = cwd w"
    using m by simp
  have e: "e = None"
    using assms ne m by (auto simp: generate_contract_def Let_def split: option.splits)
  let ?content = "render_contract w (Path out) name domain minimal"
  obtain w2 where wr: "write_text w1 (Path out) ?content = Inr w2"
    using assms ne m e by (auto simp: generate_contract_def Let_def split: sum.splits)
  have g: "generate_contract w out name domain minimal
             = (print_line w2 (check_mark @ '' Created contract: '' @ str_path (Path out)),
                Some (Path out))"
    using ne m e wr by (simp add: generate_contract_def Let_def)
  have w2: "parts (resolve w1 (Path out)) \<noteq> []"
    "w2 = w1\<lparr>fs := (fs w1)(resolve w1 (Path out) \<mapsto> File ?content)\<rparr>"
    using wr
    by (auto simp: write_text_def Let_def node_def resolve_def
             split: option.splits fnode.splits if_splits)
  have c2: "cwd w2 = cwd w"
    using w2(2) c1 by simp
  have "resolve w2 (Path out) = resolve w1 (Path out)"
    using w2(2) by (simp add: resolve_def)
  then have n2: "node w2 (Path out) = Some (File ?content)"
    using w2 by (simp add: node_def Let_def)
  let ?w3 = "print_line w2 (check_mark @ '' Created contract: '' @ str_path (Path out))"
  have "node ?w3 (Path out) = node w2 (Path out)" "cwd ?w3 = cwd w2"
    by (auto simp: print_line_def node_def resolve_def Let_def)
  then show ?thesis
    using g c2 n2 by simp
qed

text \<open>
  Claim C8. When the output path exists, \<open>generate_contract\<close> prints the error,
  returns \<open>None\<close> and leaves the file system as it was (no write, no directory),
  and \<open>main\<close> exits with code 1. So after a first call that succeeded, a second
  call on the same path, whatever its other arguments, fails and leaves the content
  the first call wrote.
\<close>

theorem generate_contract_refuses_to_overwrite:
  "(path_exists w (Path out) \<longrightarrow>
      generate_contract w out name domain minimal
        = (print_line w (cross_mark @ '' Error: File already exists: '' @ str_path (Path out)),
           None)
      \<and> fs (fst (generate_contract w out name domain minimal)) = fs w
      \<and> snd (new_contract_main w out name domain minimal) = 1)
   \<and> (\<forall>w2. snd (generate_contract w out name domain minimal) \<noteq> None
           \<and> fs w2 = fs (fst (generate_contract w out name domain minimal))
           \<and> cwd w2 = cwd w \<longrightarrow>
         node w2 (Path out) = Some (File (render_contract w (Path out) name domain minimal))
         \<and> snd (generate_contract w2 out name2 domain2 minimal2) = None
         \<and> fs (fst (generate_contract w2 out name2 domain2 minimal2)) = fs w2
         \<and> snd (new_contract_main w2 out name2 domain2 minimal2) = 1)"
proof -
  have first: "generate_contract w' out n d m
        = (print_line w' (cross_mark @ '' Error: File already exists: '' @ str_path (Path out)),
           None)
      \<and> fs (fst (generate_contract w' out n d m)) = fs w'
      \<and> snd (new_contract_main w' out n d m) = 1"
    if "path_exists w' (Path out)" for w' n d m
    using that by (simp add: generate_contract_def new_contract_main_def print_line_def)
  have second: "node w2 (Path out) = Some (File (render_contract w (Path out) name domain minimal))
         \<and> snd (generate_contract w2 out name2 domain2 minimal2) = None
         \<and> fs (fst (generate_contract w2 out name2 domain2 minimal2)) = fs w2
         \<and> snd (new_contract_main w2 out name2 domain2 minimal2) = 1"
    if ok: "snd (generate_contract w out name domain minimal) \<noteq> None"
      and same: "fs w2 = fs (fst (generate_contract w out name domain minimal))" "cwd w2 = cwd w"
    for w2
  proof -
    let ?w1 = "fst (generate_contract w out name domain minimal)"
    have n1: "node ?w1 (Path out) = Some (File (render_contract w (Path out) name domain minimal))"
      and c1: "cwd ?w1 = cwd w"
      using generate_contract_success [OF ok] by simp_all
    have "resolve w2 (Path out) = resolve ?w1 (Path out)"
      using same(2) c1 by (simp add: resolve_def)
    then have n2: "node w2 (Path out) = node ?w1 (Path out)"
      using same(1) by (simp add: node_def Let_def)
    then have "path_exists w2 (Path out)"
      using n1 by (simp add: path_exists_def)
    from first [OF this, of name2 domain2 minimal2] n1 n2 show ?thesis
      by (simp add: print_line_def)
  qed
  from first second show ?thesis by blast
qed

theorem generate_contract_refuses_to_overwrite_witness:
  "path_exists demo (Path ''good.yaml'')
   \<and> snd (generate_contract demo ''good.yaml'' None None False) = None
   \<and> fs (fst (generate_contract demo ''good.yaml'' None None False)) = fs demo
   \<and> snd (new_contract_main demo ''good.yaml'' None None False) = 1
   \<and> snd (generate_contract demo ''out/orders.odcs.yaml'' None None True) \<noteq> None
   \<and> node (fst (generate_contract demo ''out/orders.odcs.yaml'' None None True))
        (Path ''out/orders.odcs.yaml'')
       = Some (File (render_contract demo (Path ''out/orders.odcs.yaml'') None None True))
   \<and> snd (generate_contract (fst (generate_contract demo ''out/orders.odcs.yaml'' None None True))
             ''out/orders.odcs.yaml'' (Some ''Orders'') (Some ''sales'') False) = None
   \<and> snd (new_contract_main (fst (generate_contract demo ''out/orders.odcs.yaml'' None None True))
             ''out/orders.odcs.yaml'' (Some ''Orders'') (Some ''sales'') False) = 1"
proof -
  have h1: "path_exists demo (Path ''good.yaml'')" by code_simp
  have h2: "snd (generate_contract demo ''out/orders.odcs.yaml'' None None True) \<noteq> None"
    by code_simp
  let ?w1 = "fst (generate_contract demo ''out/orders.odcs.yaml'' None None True)"
  have h3: "cwd ?w1 = cwd demo" by code_simp
  have a: "snd (generate_contract demo ''good.yaml'' None None False) = None
      \<and> fs (fst (generate_contract demo ''good.yaml'' None None False)) = fs demo
      \<and> snd (new_contract_main demo ''good.yaml'' None None False) = 1"
    using generate_contract_refuses_to_overwrite
            [of demo "''good.yaml''" None None False, THEN conjunct1] h1
    by (simp add: print_line_def)
  have b: "node ?w1 (Path ''out/orders.odcs.yaml'')
       = Some (File (render_contract demo (Path ''out/orders.odcs.yaml'') None None True))
      \<and> snd (generate_contract ?w1 ''out/orders.odcs.yaml'' (Some ''Orders'') (Some ''sales'') False)
          = None
      \<and> snd (new_contract_main ?w1 ''out/orders.odcs.yaml'' (Some ''Orders'') (Some ''sales'') False)
          = 1"
    using generate_contract_refuses_to_overwrite
            [of demo "''out/orders.odcs.yaml''" None None True
                "Some ''Orders''" "Some ''sales''" False, THEN conjunct2, THEN spec, of ?w1]
          h2 h3
    by blast
  from a b h1 h2 show ?thesis by blast
qed


subsection \<open>Minimal mode\<close>

text \<open>
  Claim C9. In minimal mode the name and the domain have no effect: with the same
  world, two calls that differ only there do the same, and the content is the
  minimal template filled with the identifier and the table name derived from the
  file name alone, so it is the same whenever the identifier is.
\<close>

theorem minimal_mode_ignores_name_and_domain:
  "generate_contract w out name1 domain1 True = generate_contract w out name2 domain2 True
   \<and> (uuid4 w' = uuid4 w \<longrightarrow>
        render_contract w' (Path out) name2 domain2 True
          = render_contract w (Path out) name1 domain1 True)
   \<and> render_contract w (Path out) name1 domain1 True
       = MINIMAL_TEMPLATE (uuid4 w)
           (let base_name = str_replace '' '' ''_''
                   (str_replace ''-'' ''_'' (str_replace ''.odcs'' [] (stem (Path out))))
            in if base_name \<noteq> [] then base_name else ''my_table'')"
  by (simp add: generate_contract_def render_contract_def Let_def)

theorem minimal_mode_ignores_name_and_domain_witness:
  "uuid4 (demo\<lparr>now_isoformat := ''2027-02-03T04:05:06+00:00'', now_date := ''2027-02-03''\<rparr>)
     = uuid4 demo
   \<and> render_contract
         (demo\<lparr>now_isoformat := ''2027-02-03T04:05:06+00:00'', now_date := ''2027-02-03''\<rparr>)
         (Path ''out/orders.odcs.yaml'') (Some ''Orders Data'') (Some ''sales'') True
       = render_contract demo (Path ''out/orders.odcs.yaml'') None None True
   \<and> render_contract demo (Path ''out/orders.odcs.yaml'') None None True
       = MINIMAL_TEMPLATE ''0b9e'' ''orders''"
proof -
  have u: "uuid4 (demo\<lparr>now_isoformat := ''2027-02-03T04:05:06+00:00'', now_date := ''2027-02-03''\<rparr>)
     = uuid4 demo" by simp
  have v: "uuid4 demo = ''0b9e''" by code_simp
  have t: "(let base_name = str_replace '' '' ''_''
                   (str_replace ''-'' ''_'' (str_replace ''.odcs'' [] (stem (Path ''out/orders.odcs.yaml''))))
            in if base_name \<noteq> [] then base_name else ''my_table'') = ''orders''"
    by code_simp
  from minimal_mode_ignores_name_and_domain
         [of demo "''out/orders.odcs.yaml''" None None "Some ''Orders Data''" "Some ''sales''"
             "demo\<lparr>now_isoformat := ''2027-02-03T04:05:06+00:00'', now_date := ''2027-02-03''\<rparr>"]
       u v t
  show ?thesis by simp
qed

end
